theory Spec2Isabelle
  imports Complex_Main "HOL-Library.Product_Lexorder" "HOL-Library.Log_Nat"
begin

section \<open>Data model\<close>

text \<open>
  A Python \<open>str\<close> is a sequence of Unicode code points. The sheet holds Thai text and the
  normalisation of cells looks at code points beyond one byte, so a string is a list of
  code points.
\<close>

type_synonym ustring = "nat list"

text \<open>
  \<open>datetime.date\<close>: Python compares two dates as the tuples (year, month, day), which is
  the lexicographic order.
\<close>

datatype date = Date (year: nat) (month: nat) (day: nat)

definition date_key :: "date \<Rightarrow> nat \<times> nat \<times> nat" where
  "date_key d = (year d, month d, day d)"

instantiation date :: linorder
begin

definition less_eq_date :: "date \<Rightarrow> date \<Rightarrow> bool" where
  "less_eq_date a b \<longleftrightarrow> date_key a \<le> date_key b"

definition less_date :: "date \<Rightarrow> date \<Rightarrow> bool" where
  "less_date a b \<longleftrightarrow> date_key a < date_key b"

instance
  by standard (auto simp: less_eq_date_def less_date_def date_key_def date.expand)

end

text \<open>
  \<open>date.toordinal\<close> of the standard library (\<open>_ymd2ord\<close>): the day number, 1 for
  0001-01-01. The difference of two ordinals is \<open>(b - a).days\<close>.
\<close>

definition is_leap :: "nat \<Rightarrow> bool" where
  "is_leap y \<longleftrightarrow> y mod 4 = 0 \<and> (y mod 100 \<noteq> 0 \<or> y mod 400 = 0)"

definition days_before_year :: "nat \<Rightarrow> nat" where
  "days_before_year y = (let p = y - 1 in p * 365 + p div 4 - p div 100 + p div 400)"

definition days_before_month :: "nat \<Rightarrow> nat \<Rightarrow> nat" where
  "days_before_month y m =
     [0, 0, 31, 59, 90, 120, 151, 181, 212, 243, 273, 304, 334] ! m
       + (if 2 < m \<and> is_leap y then 1 else 0)"

definition toordinal :: "date \<Rightarrow> nat" where
  "toordinal d = days_before_year (year d) + days_before_month (year d) (month d) + day d"

definition days_between :: "date \<Rightarrow> date \<Rightarrow> int" where
  "days_between a b = int (toordinal b) - int (toordinal a)"

text \<open>
  A pandas timestamp of the column \<open>paid_dt\<close>: a calendar date and a time of day (seconds).
  \<open>.dt.date\<close> keeps the date.
\<close>

datatype timestamp = Timestamp (dt_date: date) (dt_seconds: nat)

text \<open>
  A row of \<open>payments_df\<close> after loading: payer, parsed payment date, amount and note.
  An amount is the exact value of the number in the column. Sums and differences of
  amounts are taken exactly; the product of the shortfall with 0.15, on which the
  rounding of the fine depends, is rounded as float64 multiplication rounds it
  (\<open>f64_mul\<close> below).
\<close>

record payment =
  payer :: ustring
  paid_dt :: timestamp
  amount :: rat
  note_text :: ustring

section \<open>Debt periods\<close>

text \<open>
  \<open>get_debt_periods(start_year=2025)\<close>: the parameter is not read by the body; the
  contract start date is the constant 2025-04-05.
\<close>

definition contract_start_date :: date where
  "contract_start_date = Date 2025 4 5"

definition get_debt_periods :: "nat \<Rightarrow> (date \<times> date) list" where
  "get_debt_periods start_year =
     map (\<lambda>i. (Date (year contract_start_date + i) 4 5,
               Date (year contract_start_date + i + 1) 3 5)) [0..<4]"

section \<open>Yearly summary\<close>

text \<open>
  Python's \<open>round(x)\<close> with one argument: the nearest integer, a tie going to the even
  neighbour.
\<close>

definition py_round :: "rat \<Rightarrow> int" where
  "py_round x =
     (let f = \<lfloor>x\<rfloor>; d = x - of_int f
      in if d < 1 / 2 then f
         else if 1 / 2 < d then f + 1
         else if even f then f else f + 1)"

text \<open>
  float64 arithmetic on exact values: \<open>f64_round\<close> is round-to-nearest with ties to the
  even mantissa, at 53 bits of precision and with the subnormal spacing below
  \<open>2 ^ - 1022\<close>; overflow to infinity (beyond about 1.8e308) is outside the model.
  \<open>f64_015\<close> is the float64 number that the literal \<open>0.15\<close> denotes.
\<close>

definition pow2 :: "int \<Rightarrow> rat" where
  "pow2 e = (if 0 \<le> e then 2 ^ nat e else 1 / 2 ^ nat (- e))"

definition f64_round :: "rat \<Rightarrow> rat" where
  "f64_round x =
     (if x = 0 then 0
      else let a = \<bar>x\<bar>;
               (p, q) = quotient_of a;
               e0 = bitlen p - bitlen q;
               e = (if pow2 e0 \<le> a then e0 else e0 - 1);
               ulp = pow2 (max e (- 1022) - 52);
               m = py_round (a / ulp)
           in sgn x * (of_int m * ulp))"

definition f64_015 :: rat where
  "f64_015 = 5404319552844595 / 36028797018963968"

definition f64_mul :: "rat \<Rightarrow> rat \<Rightarrow> rat" where
  "f64_mul a b = f64_round (a * b)"

text \<open>The three texts of the fine status column; the first shows the fine.\<close>

datatype fine_status = HasFine rat | PaidInFull | NotYetDue

text \<open>
  The values of one iteration of the loop: the three numbers of the label and the locals
  \<open>yearly_target\<close>, \<open>paid_in_period\<close>, \<open>shortfall\<close>, \<open>fine\<close> and \<open>fine_status\<close>,
  unrounded. The dictionary that the iteration appends to \<open>summary_data\<close> is printed
  from them, see \<open>summary_entry\<close> below.
\<close>

record period_row =
  year_no :: nat
  year_from :: nat
  year_to :: nat
  target :: rat
  paid :: rat
  shortfall :: rat
  fine :: rat
  status :: fine_status

text \<open>
  The dictionary appended to \<open>summary_data\<close>: the label, the target, the paid amount and
  the shortfall printed with \<open>,.0f\<close>, that is rounded to a whole number with ties to even
  (the text is that whole number with thousands separators), and the status text.
\<close>

record summary_entry =
  label_no :: nat
  label_from :: nat
  label_to :: nat
  target_text :: int
  paid_text :: int
  shortfall_text :: int
  status_text :: fine_status

definition entry_of :: "period_row \<Rightarrow> summary_entry" where
  "entry_of r =
     \<lparr>label_no = year_no r, label_from = year_from r, label_to = year_to r,
      target_text = py_round (target r), paid_text = py_round (paid r),
      shortfall_text = py_round (shortfall r), status_text = status r\<rparr>"

text \<open>The mask of the loop and the sum of the selected amounts.\<close>

definition in_mask :: "ustring \<Rightarrow> date \<Rightarrow> date \<Rightarrow> payment \<Rightarrow> bool" where
  "in_mask debtor_name start_date end_date p \<longleftrightarrow>
     payer p = debtor_name \<and> start_date \<le> dt_date (paid_dt p) \<and> dt_date (paid_dt p) \<le> end_date"

definition paid_in_period :: "ustring \<Rightarrow> payment list \<Rightarrow> date \<Rightarrow> date \<Rightarrow> rat" where
  "paid_in_period debtor_name payments_df start_date end_date =
     sum_list (map amount (filter (in_mask debtor_name start_date end_date) payments_df))"

text \<open>
  The loop over \<open>enumerate(periods)\<close>, with the accumulators \<open>summary_data\<close>,
  \<open>total_fine_all_years\<close> and \<open>total_paid_all_years\<close>.
\<close>

fun summary_loop ::
  "ustring \<Rightarrow> rat \<Rightarrow> payment list \<Rightarrow> date \<Rightarrow> (nat \<times> date \<times> date) list
     \<Rightarrow> period_row list \<times> rat \<times> rat \<Rightarrow> period_row list \<times> rat \<times> rat" where
  "summary_loop debtor_name yearly_target payments_df current_date [] acc = acc"
| "summary_loop debtor_name yearly_target payments_df current_date
       ((idx, start_date, end_date) # rest) (summary_data, total_fine, total_paid) =
     (let paid_in = paid_in_period debtor_name payments_df start_date end_date;
          total_paid' = total_paid + paid_in;
          short = max 0 (yearly_target - paid_in);
          fine_deadline = end_date;
          (fine_v, total_fine', fine_st) =
            (if fine_deadline < current_date then
               (if 0 < short then
                  (let f = of_int (py_round (f64_mul short f64_015))
                   in (f, total_fine + f, HasFine f))
                else (0, total_fine, PaidInFull))
             else (0, total_fine, NotYetDue));
          row = \<lparr>year_no = idx + 1, year_from = year start_date, year_to = year end_date,
                 target = yearly_target, paid = paid_in, shortfall = short,
                 fine = fine_v, status = fine_st\<rparr>
      in summary_loop debtor_name yearly_target payments_df current_date rest
           (summary_data @ [row], total_fine', total_paid'))"

text \<open>
  \<open>calculate_yearly_summary\<close>. The loan is \<open>None\<close> when \<open>pd.to_numeric\<close> cannot read it
  (it is then taken as 0); the evaluation date \<open>datetime.now().date()\<close> is a parameter.
  The result is the tuple of the source, with the loop's values of each period in place
  of the printed dictionary (\<open>map entry_of\<close> of the rows is \<open>summary_data\<close>): the rows,
  the total paid, the total of fines and the remaining debt with fines.
\<close>

definition coerce_loan :: "rat option \<Rightarrow> rat" where
  "coerce_loan total_loan = (case total_loan of None \<Rightarrow> 0 | Some v \<Rightarrow> v)"

definition calculate_yearly_summary ::
  "ustring \<Rightarrow> rat option \<Rightarrow> payment list \<Rightarrow> date \<Rightarrow> period_row list \<times> rat \<times> rat \<times> rat" where
  "calculate_yearly_summary debtor_name total_loan payments_df current_date =
     (let loan = coerce_loan total_loan;
          yearly_target = loan * (25 / 100);
          periods = get_debt_periods 2025;
          (summary_data, total_fine_all_years, total_paid_all_years) =
             summary_loop debtor_name yearly_target payments_df current_date
               (enumerate 0 periods) ([], 0, 0);
          remaining_original_debt = max 0 (loan - total_paid_all_years);
          remaining_overall_debt_with_fine = remaining_original_debt + total_fine_all_years
      in (summary_data, total_paid_all_years, total_fine_all_years,
          remaining_overall_debt_with_fine))"

text \<open>The four components of the returned tuple.\<close>

definition summary_rows :: "period_row list \<times> rat \<times> rat \<times> rat \<Rightarrow> period_row list" where
  "summary_rows out = fst out"

definition summary_total_paid :: "period_row list \<times> rat \<times> rat \<times> rat \<Rightarrow> rat" where
  "summary_total_paid out = fst (snd out)"

definition summary_total_fine :: "period_row list \<times> rat \<times> rat \<times> rat \<Rightarrow> rat" where
  "summary_total_fine out = fst (snd (snd out))"

definition summary_remaining :: "period_row list \<times> rat \<times> rat \<times> rat \<Rightarrow> rat" where
  "summary_remaining out = snd (snd (snd out))"

text \<open>
  The entry that one iteration of the loop appends for a period, read off the loop itself.
\<close>

definition row_of ::
  "ustring \<Rightarrow> rat \<Rightarrow> payment list \<Rightarrow> date \<Rightarrow> nat \<times> date \<times> date \<Rightarrow> period_row" where
  "row_of debtor_name yearly_target payments_df current_date p =
     hd (fst (summary_loop debtor_name yearly_target payments_df current_date [p] ([], 0, 0)))"

section \<open>Sheet rows\<close>

text \<open>
  \<open>get_all_values\<close> returns the sheet as a list of rows, each a list of cell texts; the
  first row is the header.
\<close>

type_synonym sheet_row = "ustring list"
type_synonym sheet = "sheet_row list"

text \<open>The four column names of the sheet \<open>pay\<close> (Thai text, as code points).\<close>

definition col_payer :: ustring where
  "col_payer = [3612, 3641, 3657, 3592, 3656, 3634, 3618]"

definition col_date :: ustring where
  "col_date = [3623, 3633, 3609, 3607, 3637, 3656, 3592, 3656, 3634, 3618]"

definition col_amount :: ustring where
  "col_amount = [3592, 3635, 3609, 3623, 3609]"

definition col_note :: ustring where
  "col_note = [3627, 3617, 3634, 3618, 3648, 3627, 3605, 3640]"

definition PAYMENT_GSHEET_COLS :: "ustring list" where
  "PAYMENT_GSHEET_COLS = [col_payer, col_date, col_amount, col_note]"

text \<open>
  \<open>str.strip()\<close> removes the code points that Python counts as whitespace from both
  ends; among them is the no-break space U+00A0, but not the byte order mark U+FEFF.
\<close>

definition py_isspace :: "nat \<Rightarrow> bool" where
  "py_isspace c \<longleftrightarrow>
     c \<in> set [9, 10, 11, 12, 13, 28, 29, 30, 31, 32, 133, 160, 5760,
              8232, 8233, 8239, 8287, 12288]
     \<or> (8192 \<le> c \<and> c \<le> 8202)"

definition py_strip :: "ustring \<Rightarrow> ustring" where
  "py_strip s = rev (dropWhile py_isspace (rev (dropWhile py_isspace s)))"

text \<open>
  \<open>_normalize_gsheet_col_name\<close> on a string: strip, then every U+00A0 becomes a space,
  then every U+FEFF is dropped.
\<close>

definition normalize_gsheet_col_name :: "ustring \<Rightarrow> ustring" where
  "normalize_gsheet_col_name col_name =
     filter (\<lambda>c. c \<noteq> 65279) (map (\<lambda>c. if c = 160 then 32 else c) (py_strip col_name))"

text \<open>\<open>list.index\<close>: the first position of a value, \<open>None\<close> where Python raises ValueError.\<close>

fun list_index :: "'a list \<Rightarrow> 'a \<Rightarrow> nat option" where
  "list_index [] x = None"
| "list_index (y # ys) x = (if y = x then Some 0 else map_option Suc (list_index ys x))"

text \<open>\<open>strftime("%Y-%m-%d")\<close>: decimal digits, zero-padded to four, two and two places.\<close>

fun dec_digits :: "nat \<Rightarrow> ustring" where
  "dec_digits n = (if n < 10 then [48 + n] else dec_digits (n div 10) @ [48 + n mod 10])"

definition zero_pad :: "nat \<Rightarrow> nat \<Rightarrow> ustring" where
  "zero_pad w n = (let ds = dec_digits n in replicate (w - length ds) 48 @ ds)"

definition strftime_ymd :: "date \<Rightarrow> ustring" where
  "strftime_ymd d = zero_pad 4 (year d) @ [45] @ zero_pad 2 (month d) @ [45] @ zero_pad 2 (day d)"

section \<open>Locating a payment row for editing\<close>

text \<open>
  The row is padded with empty cells up to the largest column index, so that the four
  cells can be read.
\<close>

definition pad_row :: "nat \<Rightarrow> sheet_row \<Rightarrow> sheet_row" where
  "pad_row width gsheet_row = gsheet_row @ replicate (width - length gsheet_row) []"

text \<open>
  The test of one sheet row against the in-memory row. \<open>to_numeric\<close> stands for
  \<open>pd.to_numeric(_, errors='coerce')\<close> on a cell text, \<open>None\<close> being NaN, which equals no
  amount.
\<close>

definition row_matches ::
  "(ustring \<Rightarrow> rat option) \<Rightarrow> nat \<Rightarrow> nat \<Rightarrow> nat \<Rightarrow> nat \<Rightarrow> ustring \<Rightarrow> payment \<Rightarrow> sheet_row \<Rightarrow> bool" where
  "row_matches to_numeric payer_idx date_idx amount_idx note_idx target_date_str row gsheet_row =
     (let gsheet_row_padded =
            pad_row (max payer_idx (max date_idx (max amount_idx note_idx)) + 1) gsheet_row;
          gsheet_amount = to_numeric (normalize_gsheet_col_name (gsheet_row_padded ! amount_idx))
      in normalize_gsheet_col_name (gsheet_row_padded ! payer_idx) = payer row
         \<and> normalize_gsheet_col_name (gsheet_row_padded ! date_idx) = target_date_str
         \<and> gsheet_amount = Some (amount row)
         \<and> normalize_gsheet_col_name (gsheet_row_padded ! note_idx) = note_text row)"

text \<open>
  The scan over \<open>enumerate(all_pay_values[1:])\<close> with its \<open>break\<close>: the sheet row number
  of the first match (\<open>idx_gsheet + 2\<close>), or the initial -1.
\<close>

fun scan_rows :: "(sheet_row \<Rightarrow> bool) \<Rightarrow> nat \<Rightarrow> sheet_row list \<Rightarrow> int" where
  "scan_rows matches idx_gsheet [] = - 1"
| "scan_rows matches idx_gsheet (gsheet_row # rest) =
     (if matches gsheet_row then int idx_gsheet + 2
      else scan_rows matches (Suc idx_gsheet) rest)"

text \<open>
  The outcome for one in-memory row: the page stops when a column is missing from the
  header, the row is skipped with a warning when the index is still -1, and otherwise
  the edit button carries the sheet row number.
\<close>

datatype locate_outcome = Stopped | RecordNotFound | EditRow nat

definition row_index_in_gsheet ::
  "(ustring \<Rightarrow> rat option) \<Rightarrow> sheet \<Rightarrow> payment \<Rightarrow> int option" where
  "row_index_in_gsheet to_numeric all_pay_values row =
     (case all_pay_values of
        [] \<Rightarrow> Some (- 1)
      | header_row # data_rows \<Rightarrow>
          (let headers = map normalize_gsheet_col_name header_row;
               target_date_str = strftime_ymd (dt_date (paid_dt row))
           in case list_index headers col_payer of None \<Rightarrow> None | Some payer_idx \<Rightarrow>
              (case list_index headers col_date of None \<Rightarrow> None | Some date_idx \<Rightarrow>
              (case list_index headers col_amount of None \<Rightarrow> None | Some amount_idx \<Rightarrow>
              (case list_index headers col_note of None \<Rightarrow> None | Some note_idx \<Rightarrow>
                 Some (scan_rows
                         (row_matches to_numeric payer_idx date_idx amount_idx note_idx
                            target_date_str row)
                         0 data_rows))))))"

definition locate_payment_row ::
  "(ustring \<Rightarrow> rat option) \<Rightarrow> sheet \<Rightarrow> payment \<Rightarrow> locate_outcome" where
  "locate_payment_row to_numeric all_pay_values row =
     (case row_index_in_gsheet to_numeric all_pay_values row of
        None \<Rightarrow> Stopped
      | Some k \<Rightarrow> if k = - 1 then RecordNotFound else EditRow (nat k))"

text \<open>
  The update of the edit form writes the four new cells over the columns A to D of the
  sheet row with the stored number (rows count from 1); a row number past the last row
  leaves empty rows between, and the sheet has no row 0. \<open>show_amount\<close> stands for the
  text under which the sheet returns the written amount.
\<close>

definition ws_update_row :: "sheet \<Rightarrow> nat \<Rightarrow> sheet_row \<Rightarrow> sheet" where
  "ws_update_row ws k vals =
     (if k = 0 then ws
      else if k \<le> length ws then ws[k - 1 := vals @ drop (length vals) (ws ! (k - 1))]
      else ws @ replicate (k - 1 - length ws) [] @ [vals])"

definition submit_edit ::
  "(rat \<Rightarrow> ustring) \<Rightarrow> sheet \<Rightarrow> nat \<Rightarrow> ustring \<Rightarrow> date \<Rightarrow> rat \<Rightarrow> ustring \<Rightarrow> sheet" where
  "submit_edit show_amount ws sheet_row_index debtor_name edited_date edited_amount edited_note =
     ws_update_row ws sheet_row_index
       [debtor_name, strftime_ymd edited_date, show_amount edited_amount, edited_note]"

section \<open>Deleting a debtor's payments\<close>

text \<open>
  The filter of the delete handler. A row stays when its normalised payer cell differs
  from the name to delete, and also when the payer column is missing from the header
  (ValueError) or the row is too short to have that cell (IndexError).
\<close>

definition keep_payment_row :: "ustring list \<Rightarrow> ustring \<Rightarrow> sheet_row \<Rightarrow> bool" where
  "keep_payment_row pay_headers debtor_to_delete row_data =
     (case list_index pay_headers col_payer of
        None \<Rightarrow> True
      | Some payer_col_index \<Rightarrow>
          if payer_col_index < length row_data
          then normalize_gsheet_col_name (row_data ! payer_col_index) \<noteq> debtor_to_delete
          else True)"

text \<open>
  The content of the sheet \<open>pay\<close> after the handler: an empty sheet is left alone,
  otherwise the sheet is cleared and the header and the kept rows are written back.
\<close>

definition delete_debtor_payments :: "ustring \<Rightarrow> sheet \<Rightarrow> sheet" where
  "delete_debtor_payments debtor_to_delete all_pay_values =
     (case all_pay_values of
        [] \<Rightarrow> []
      | header_row # data_rows \<Rightarrow>
          (let pay_headers = map normalize_gsheet_col_name header_row;
               pay_data_to_keep =
                 header_row # filter (keep_payment_row pay_headers debtor_to_delete) data_rows
           in pay_data_to_keep))"

section \<open>Properties of the yearly summary\<close>

lemma row_of_fields:
  "target (row_of n yt pays now (i, s, e)) = yt"
  "paid (row_of n yt pays now (i, s, e)) = paid_in_period n pays s e"
  "shortfall (row_of n yt pays now (i, s, e)) = max 0 (yt - paid_in_period n pays s e)"
  "fine (row_of n yt pays now (i, s, e)) =
     (if e < now \<and> 0 < max 0 (yt - paid_in_period n pays s e)
      then of_int (py_round (f64_mul (max 0 (yt - paid_in_period n pays s e)) f64_015)) else 0)"
  "status (row_of n yt pays now (i, s, e)) =
     (if e < now then
        (if 0 < max 0 (yt - paid_in_period n pays s e)
         then HasFine (of_int (py_round (f64_mul (max 0 (yt - paid_in_period n pays s e)) f64_015)))
         else PaidInFull)
      else NotYetDue)"
  "year_no (row_of n yt pays now (i, s, e)) = i + 1"
  "year_from (row_of n yt pays now (i, s, e)) = year s"
  "year_to (row_of n yt pays now (i, s, e)) = year e"
  by (simp_all add: row_of_def Let_def)

lemma summary_loop_eq:
  "summary_loop n yt pays now ps (rows, tf, tp) =
     (rows @ map (row_of n yt pays now) ps,
      tf + sum_list (map (\<lambda>p. fine (row_of n yt pays now p)) ps),
      tp + sum_list (map (\<lambda>p. paid (row_of n yt pays now p)) ps))"
proof (induction ps arbitrary: rows tf tp)
  case Nil
  then show ?case by simp
next
  case (Cons p ps)
  obtain i s e where p: "p = (i, s, e)" by (cases p) auto
  show ?case
    unfolding p
    by (simp add: Let_def Cons.IH row_of_fields)
qed

lemma get_debt_periods_eq: "get_debt_periods y =
  [(Date 2025 4 5, Date 2026 3 5), (Date 2026 4 5, Date 2027 3 5),
   (Date 2027 4 5, Date 2028 3 5), (Date 2028 4 5, Date 2029 3 5)]"
  by (simp add: get_debt_periods_def contract_start_date_def upt_rec)

lemma enumerate_periods: "enumerate 0 (get_debt_periods y) = map (\<lambda>i. (i, get_debt_periods y ! i)) [0..<4]"
  by (simp add: get_debt_periods_eq upt_rec)

lemma calc_eq:
  "calculate_yearly_summary n L pays now =
     (let yt = coerce_loan L * (25 / 100);
          rows = map (\<lambda>i. row_of n yt pays now (i, get_debt_periods 2025 ! i)) [0..<4]
      in (rows, sum_list (map paid rows), sum_list (map fine rows),
          max 0 (coerce_loan L - sum_list (map paid rows)) + sum_list (map fine rows)))"
  by (simp add: calculate_yearly_summary_def Let_def summary_loop_eq enumerate_periods comp_def)

lemma summary_rows_nth:
  "i < 4 \<Longrightarrow> summary_rows (calculate_yearly_summary n L pays now) ! i =
     row_of n (coerce_loan L * (25 / 100)) pays now (i, get_debt_periods 2025 ! i)"
  by (simp add: calc_eq summary_rows_def Let_def del: upt_Suc)

lemma summary_rows_length: "length (summary_rows (calculate_yearly_summary n L pays now)) = 4"
  by (simp add: calc_eq summary_rows_def Let_def)

lemma py_round_0: "py_round 0 = 0" by (simp add: py_round_def)

lemma f64_mul_0: "f64_mul 0 b = 0" by (simp add: f64_mul_def f64_round_def)

text \<open>
  C1. For every period of the yearly summary: when the evaluation date is strictly past the
  period's end and the shortfall is positive, the fine is round(shortfall * 0.15), the product being the float64 product, and the
  status shows that fine; when the date is past the end and the shortfall is 0, the period
  is marked fully paid with fine 0; when the date is not past the end, the fine is 0 and
  the period is marked not yet due. The total of fines is the sum of the periods' fines.
  With no payment by the debtor and a loan that is not negative, the shortfall is the
  target and the fine of a past period is round(target * 0.15).
\<close>

theorem fine_policy_per_period:
  assumes "i < 4"
  shows "let out = calculate_yearly_summary debtor_name total_loan payments_df now;
             r = summary_rows out ! i;
             end_date = snd (get_debt_periods 2025 ! i)
         in length (summary_rows out) = 4
          \<and> shortfall r = max 0 (target r - paid r)
          \<and> (end_date < now \<and> 0 < shortfall r \<longrightarrow>
                fine r = of_int (py_round (f64_mul (shortfall r) f64_015))
                \<and> status r = HasFine (fine r))
          \<and> (end_date < now \<and> shortfall r = 0 \<longrightarrow> fine r = 0 \<and> status r = PaidInFull)
          \<and> (\<not> end_date < now \<longrightarrow> fine r = 0 \<and> status r = NotYetDue)
          \<and> summary_total_fine out = sum_list (map fine (summary_rows out))
          \<and> ((\<forall>p \<in> set payments_df. payer p \<noteq> debtor_name) \<and> 0 \<le> coerce_loan total_loan \<longrightarrow>
                shortfall r = target r
                \<and> (end_date < now \<longrightarrow> fine r = of_int (py_round (f64_mul (target r) f64_015))))"
proof -
  obtain s e where se: "get_debt_periods 2025 ! i = (s, e)" by (cases "get_debt_periods 2025 ! i")
  have tf: "summary_total_fine (calculate_yearly_summary debtor_name total_loan payments_df now) =
     sum_list (map fine (summary_rows (calculate_yearly_summary debtor_name total_loan payments_df now)))"
    by (simp add: calc_eq summary_total_fine_def summary_rows_def Let_def)
  have np: "(\<forall>p \<in> set payments_df. payer p \<noteq> debtor_name) \<Longrightarrow> paid_in_period debtor_name payments_df s e = 0"
    by (simp add: paid_in_period_def in_mask_def filter_empty_conv[THEN iffD2])
  show ?thesis
    unfolding Let_def summary_rows_nth[OF assms] summary_rows_length tf[symmetric] se
    using np by (auto simp: row_of_fields py_round_0 f64_mul_0 max_def)
qed

lemma py_round_3750: "py_round 3750 = 3750" by code_simp

lemma f64_mul_25000: "f64_mul 25000 f64_015 = 3750" by code_simp

theorem fine_policy_per_period_witness:
  "(1::nat) < 4
   \<and> snd (get_debt_periods 2025 ! 1) < Date 2027 4 2
   \<and> shortfall (summary_rows (calculate_yearly_summary [66, 111, 98] (Some 100000)
         [\<lparr>payer = [66, 111, 98], paid_dt = Timestamp (Date 2025 4 5) 0, amount = 25000,
           note_text = []\<rparr>] (Date 2027 4 2)) ! 1) = 25000
   \<and> fine (summary_rows (calculate_yearly_summary [66, 111, 98] (Some 100000)
         [\<lparr>payer = [66, 111, 98], paid_dt = Timestamp (Date 2025 4 5) 0, amount = 25000,
           note_text = []\<rparr>] (Date 2027 4 2)) ! 1) = 3750
   \<and> status (summary_rows (calculate_yearly_summary [66, 111, 98] (Some 100000)
         [\<lparr>payer = [66, 111, 98], paid_dt = Timestamp (Date 2025 4 5) 0, amount = 25000,
           note_text = []\<rparr>] (Date 2027 4 2)) ! 1) = HasFine 3750"
proof -
  let ?r = "summary_rows (calculate_yearly_summary [66, 111, 98] (Some 100000)
         [\<lparr>payer = [66, 111, 98], paid_dt = Timestamp (Date 2025 4 5) 0, amount = 25000,
           note_text = []\<rparr>] (Date 2027 4 2)) ! 1"
  have a: "(1::nat) < 4" by simp
  have e: "snd (get_debt_periods 2025 ! 1) < Date 2027 4 2" by code_simp
  have s: "shortfall ?r = 25000" by code_simp
  have pos: "0 < shortfall ?r" by (simp only: s)
  note t = fine_policy_per_period [OF a, of "[66, 111, 98]" "Some 100000"
         "[\<lparr>payer = [66, 111, 98], paid_dt = Timestamp (Date 2025 4 5) 0, amount = 25000,
           note_text = []\<rparr>]" "Date 2027 4 2", unfolded Let_def]
  from t e pos have f: "fine ?r = of_int (py_round (f64_mul (shortfall ?r) f64_015)) \<and> status ?r = HasFine (fine ?r)"
    by blast
  have f1: "fine ?r = 3750" using f by (simp only: s f64_mul_25000 py_round_3750 of_int_numeral)
  have f2: "status ?r = HasFine 3750" using f by (simp only: f1)
  show ?thesis by (intro conjI a e s f1 f2)
qed

lemma upt_0_4: "[0..<4] = [0, 1, 2, 3::nat]"
  by (simp add: upt_rec)

lemma paid_in_period_Nil: "paid_in_period n [] s e = 0"
  by (simp add: paid_in_period_def)

lemma remaining_eq:
  "summary_remaining (calculate_yearly_summary n L pays now) =
     max 0 (coerce_loan L - summary_total_paid (calculate_yearly_summary n L pays now))
     + summary_total_fine (calculate_yearly_summary n L pays now)"
  by (simp add: calc_eq Let_def summary_remaining_def summary_total_paid_def
      summary_total_fine_def del: upt_Suc)

lemmas ordinal_defs =
  days_between_def toordinal_def days_before_year_def days_before_month_def is_leap_def Let_def

text \<open>
  C2. The remaining overall debt is max(0, L - total paid) + total fines, for every debtor,
  loan, payment set and evaluation date. In the scenario of a loan of 100,000 with no
  payments, evaluated on 2026-03-06 (the day after the first period's end), the first
  period's shortfall is 25,000, its fine is 3,750, the fines total 3,750 and the
  remaining overall debt is 103,750.
\<close>

theorem remaining_debt_formula:
  "summary_remaining (calculate_yearly_summary debtor_name total_loan payments_df now) =
     max 0 (coerce_loan total_loan
            - summary_total_paid (calculate_yearly_summary debtor_name total_loan payments_df now))
     + summary_total_fine (calculate_yearly_summary debtor_name total_loan payments_df now)
   \<and> days_between (snd (get_debt_periods 2025 ! 0)) (Date 2026 3 6) = 1
   \<and> shortfall (summary_rows (calculate_yearly_summary debtor_name (Some 100000) [] (Date 2026 3 6)) ! 0)
       = 25000
   \<and> fine (summary_rows (calculate_yearly_summary debtor_name (Some 100000) [] (Date 2026 3 6)) ! 0)
       = 3750
   \<and> summary_total_fine (calculate_yearly_summary debtor_name (Some 100000) [] (Date 2026 3 6)) = 3750
   \<and> summary_remaining (calculate_yearly_summary debtor_name (Some 100000) [] (Date 2026 3 6))
       = 103750"
proof -
  let ?out = "calculate_yearly_summary debtor_name (Some 100000) [] (Date 2026 3 6)"
  have d: "days_between (snd (get_debt_periods 2025 ! 0)) (Date 2026 3 6) = 1"
    by (simp add: get_debt_periods_eq ordinal_defs)
  have lt: "Date 2026 3 5 < Date 2026 3 6" "\<not> Date 2027 3 5 < Date 2026 3 6"
     "\<not> Date 2028 3 5 < Date 2026 3 6" "\<not> Date 2029 3 5 < Date 2026 3 6"
    by (simp_all add: less_date_def date_key_def)
  have yt: "coerce_loan (Some 100000) * (25 / 100) = 25000"
    by (simp add: coerce_loan_def)
  have r0: "summary_rows ?out ! 0 =
      row_of debtor_name 25000 [] (Date 2026 3 6) (0, Date 2025 4 5, Date 2026 3 5)"
    by (simp only: summary_rows_nth yt) (simp add: get_debt_periods_eq)
  have s0: "shortfall (summary_rows ?out ! 0) = 25000"
    by (simp add: r0 row_of_fields paid_in_period_Nil)
  have f0: "fine (summary_rows ?out ! 0) = 3750"
    by (simp add: r0 row_of_fields paid_in_period_Nil lt f64_mul_25000 py_round_3750)
  have tp: "summary_total_paid ?out = 0"
    by (simp add: calc_eq Let_def summary_total_paid_def upt_0_4 row_of_fields
        get_debt_periods_eq paid_in_period_Nil del: upt_Suc)
  have tf: "summary_total_fine ?out = 3750"
    unfolding calc_eq Let_def summary_total_fine_def yt upt_0_4 get_debt_periods_eq
    by (simp add: row_of_fields paid_in_period_Nil lt f64_mul_25000 py_round_3750)
  have rm: "summary_remaining ?out = 103750"
    by (simp only: remaining_eq tp tf) (simp add: coerce_loan_def)
  show ?thesis
    by (intro conjI remaining_eq d s0 f0 tf rm)
qed

text \<open>
  C3. For every loan L that is not negative, the summary has four periods, each period's
  target is 0.25 * L, and the four targets sum to exactly L.
\<close>

theorem yearly_targets_quarter:
  assumes "0 \<le> L"
  shows "length (summary_rows (calculate_yearly_summary debtor_name (Some L) payments_df now)) = 4
    \<and> (\<forall>r \<in> set (summary_rows (calculate_yearly_summary debtor_name (Some L) payments_df now)).
          target r = 25 / 100 * L)
    \<and> sum_list (map target (summary_rows (calculate_yearly_summary debtor_name (Some L) payments_df now))) = L"
  by (simp add: calc_eq summary_rows_def Let_def upt_0_4 get_debt_periods_eq row_of_fields coerce_loan_def)

theorem yearly_targets_quarter_witness:
  "(0::rat) \<le> 100000
   \<and> length (summary_rows (calculate_yearly_summary [66] (Some 100000) [] (Date 2026 3 6))) = 4
   \<and> sum_list (map target (summary_rows (calculate_yearly_summary [66] (Some 100000) []
         (Date 2026 3 6)))) = 100000"
proof -
  have h: "(0::rat) \<le> 100000" by simp
  from yearly_targets_quarter [OF h, of "[66]" "[]" "Date 2026 3 6"]
  show ?thesis by (intro conjI h) blast+
qed

lemma py_round_near: "\<bar>of_int (py_round x) - x\<bar> \<le> 1 / 2"
  unfolding py_round_def Let_def by (auto simp: abs_if) linarith+

lemma py_round_tie: "\<bar>of_int (py_round x) - x\<bar> = 1 / 2 \<Longrightarrow> even (py_round x)"
  unfolding py_round_def Let_def by (auto simp: abs_if split: if_splits) linarith+

lemma f64_mul_30: "f64_mul 30 f64_015 = 9 / 2" by code_simp

lemma py_round_9_2: "py_round (9 / 2) = 4" by code_simp

lemma f64_mul_third: "f64_mul (7505999378950827 / 2251799813685248) f64_015 = 1 / 2" by code_simp

lemma py_round_half: "py_round (1 / 2) = 0" by code_simp

lemma first_row_no_payments:
  "summary_rows (calculate_yearly_summary n (Some L) [] (Date 2026 3 6)) ! 0 =
     row_of n (L * (25 / 100)) [] (Date 2026 3 6) (0, Date 2025 4 5, Date 2026 3 5)"
proof -
  have yt: "coerce_loan (Some L) = L" by (simp add: coerce_loan_def)
  show ?thesis
    by (simp only: summary_rows_nth yt) (simp add: get_debt_periods_eq)
qed

lemma fine_row_of_Ints: "fine (row_of n yt pays now q) \<in> \<int>"
proof -
  obtain j s e where q: "q = (j, s, e)" by (cases q) auto
  show ?thesis unfolding q row_of_fields by simp
qed

lemma total_fine_Ints: "summary_total_fine (calculate_yearly_summary n L pays now) \<in> \<int>"
  unfolding calc_eq Let_def summary_total_fine_def upt_0_4
  by (simp add: fine_row_of_Ints)

text \<open>
  C9. The fine of a past period with a positive shortfall s is Python's round of the
  float64 product s * 0.15: a whole number at distance at most 1/2 from that product, and
  the even one where the distance is exactly 1/2. A shortfall of 30 gives the product 4.5
  and the fine 4. Every fine, and the total of fines, is a whole number. With a loan of
  13.333333333333334 and no payments the float64 product is exactly 0.5 and the fine is 0.
\<close>

theorem fine_rounds_half_even:
  assumes "i < 4"
  shows "let out = calculate_yearly_summary debtor_name total_loan payments_df now;
             r = summary_rows out ! i;
             end_date = snd (get_debt_periods 2025 ! i);
             product = f64_mul (shortfall r) f64_015
         in (end_date < now \<and> 0 < shortfall r \<longrightarrow>
               fine r = of_int (py_round product)
               \<and> \<bar>fine r - product\<bar> \<le> 1 / 2
               \<and> (\<bar>fine r - product\<bar> = 1 / 2 \<longrightarrow> even (py_round product)))
          \<and> fine r \<in> \<int>
          \<and> summary_total_fine out \<in> \<int>
          \<and> f64_mul 30 f64_015 = 9 / 2
          \<and> shortfall (summary_rows (calculate_yearly_summary debtor_name (Some 120) []
                (Date 2026 3 6)) ! 0) = 30
          \<and> fine (summary_rows (calculate_yearly_summary debtor_name (Some 120) []
                (Date 2026 3 6)) ! 0) = 4
          \<and> f64_mul (shortfall (summary_rows (calculate_yearly_summary debtor_name
                (Some (7505999378950827 / 562949953421312)) [] (Date 2026 3 6)) ! 0)) f64_015 = 1 / 2
          \<and> fine (summary_rows (calculate_yearly_summary debtor_name
                (Some (7505999378950827 / 562949953421312)) [] (Date 2026 3 6)) ! 0) = 0"
proof -
  obtain s e where se: "get_debt_periods 2025 ! i = (s, e)" by (cases "get_debt_periods 2025 ! i")
  have lt: "Date 2026 3 5 < Date 2026 3 6" by (simp add: less_date_def date_key_def)
  have s0: "shortfall (summary_rows (calculate_yearly_summary debtor_name (Some 120) []
                (Date 2026 3 6)) ! 0) = 30"
    by (simp add: first_row_no_payments row_of_fields paid_in_period_Nil)
  have f0: "fine (summary_rows (calculate_yearly_summary debtor_name (Some 120) []
                (Date 2026 3 6)) ! 0) = 4"
    by (simp add: first_row_no_payments row_of_fields paid_in_period_Nil lt f64_mul_30 py_round_9_2)
  have s1: "shortfall (summary_rows (calculate_yearly_summary debtor_name
                (Some (7505999378950827 / 562949953421312)) [] (Date 2026 3 6)) ! 0) = 7505999378950827 / 2251799813685248"
    by (simp add: first_row_no_payments row_of_fields paid_in_period_Nil)
  have p1: "f64_mul (shortfall (summary_rows (calculate_yearly_summary debtor_name
                (Some (7505999378950827 / 562949953421312)) [] (Date 2026 3 6)) ! 0)) f64_015 = 1 / 2"
    by (simp only: s1 f64_mul_third)
  have pos1: "(0::rat) < 7505999378950827 / 2251799813685248" by simp
  have f1: "fine (summary_rows (calculate_yearly_summary debtor_name
                (Some (7505999378950827 / 562949953421312)) [] (Date 2026 3 6)) ! 0) = 0"
    using s1 pos1 unfolding first_row_no_payments row_of_fields
    by (simp only: lt f64_mul_third py_round_half simp_thms if_True of_int_0)
  have gen: "fine (row_of debtor_name yt payments_df now (i, s, e)) =
      of_int (py_round (f64_mul (shortfall (row_of debtor_name yt payments_df now (i, s, e))) f64_015))"
    if "e < now" "0 < shortfall (row_of debtor_name yt payments_df now (i, s, e))" for yt
    using that unfolding row_of_fields by (simp only: simp_thms if_True)
  have near: "\<bar>rat_of_int (py_round x) - x\<bar> \<le> 1 / 2" for x by (rule py_round_near)
  show ?thesis
    unfolding Let_def summary_rows_nth[OF assms] se snd_conv
    using gen near py_round_tie f64_mul_30 s0 f0 p1 f1 fine_row_of_Ints total_fine_Ints
    by auto
qed

theorem fine_rounds_half_even_witness:
  "(0::nat) < 4
   \<and> snd (get_debt_periods 2025 ! 0) < Date 2026 3 6
   \<and> fine (summary_rows (calculate_yearly_summary [66] (Some 120) [] (Date 2026 3 6)) ! 0) = 4
   \<and> even (py_round (f64_mul
        (shortfall (summary_rows (calculate_yearly_summary [66] (Some 120) [] (Date 2026 3 6)) ! 0))
        f64_015))"
proof -
  let ?r = "summary_rows (calculate_yearly_summary [66] (Some 120) [] (Date 2026 3 6)) ! 0"
  have a: "(0::nat) < 4" by simp
  have e: "snd (get_debt_periods 2025 ! 0) < Date 2026 3 6"
    by (simp add: get_debt_periods_eq less_date_def date_key_def)
  note t = fine_rounds_half_even [OF a, of "[66]" "Some 120" "[]" "Date 2026 3 6",
      unfolded Let_def]
  from t have s: "shortfall ?r = 30" and f: "fine ?r = 4" by blast+
  have pos: "0 < shortfall ?r" by (simp only: s)
  have tie: "\<bar>fine ?r - f64_mul (shortfall ?r) f64_015\<bar> = 1 / 2"
    by (simp add: s f f64_mul_30)
  from t e pos tie have ev: "even (py_round (f64_mul (shortfall ?r) f64_015))" by blast
  show ?thesis by (intro conjI a e f ev)
qed

lemma paid_in_period_nonneg:
  "\<forall>p \<in> set pays. 0 \<le> amount p \<Longrightarrow> 0 \<le> paid_in_period n pays s e"
  unfolding paid_in_period_def by (rule sum_list_nonneg) auto

lemma shortfall_row_of_nonpos:
  "yt \<le> 0 \<Longrightarrow> \<forall>p \<in> set pays. 0 \<le> amount p \<Longrightarrow> shortfall (row_of n yt pays now q) = 0"
proof -
  assume a: "yt \<le> 0" and b: "\<forall>p \<in> set pays. 0 \<le> amount p"
  obtain j s e where q: "q = (j, s, e)" by (cases q) auto
  from paid_in_period_nonneg[OF b, of n s e] a
  show ?thesis unfolding q row_of_fields by (simp add: max_def)
qed

lemma fine_row_of_nonpos:
  "yt \<le> 0 \<Longrightarrow> \<forall>p \<in> set pays. 0 \<le> amount p \<Longrightarrow> fine (row_of n yt pays now q) = 0"
proof -
  assume a: "yt \<le> 0" and b: "\<forall>p \<in> set pays. 0 \<le> amount p"
  obtain j s e where q: "q = (j, s, e)" by (cases q) auto
  from shortfall_row_of_nonpos[OF a b, of n now q]
  show ?thesis unfolding q row_of_fields by (simp only: less_irrefl simp_thms if_False)
qed

text \<open>
  C6. The loan that the program receives is never negative (the loader keeps only digits
  and dots of the cell, and the forms have a minimum of 0), and no payment amount is
  negative. For such a loan that is not positive, a loan that cannot be read counting as
  zero, every period's target, shortfall and fine is zero, and so is the total of fines.
\<close>

theorem nonpositive_loan_zero_targets_fines:
  assumes "coerce_loan total_loan \<le> 0"
      and "0 \<le> coerce_loan total_loan"
      and "\<forall>p \<in> set payments_df. 0 \<le> amount p"
      and "i < 4"
  shows "let out = calculate_yearly_summary debtor_name total_loan payments_df now;
             r = summary_rows out ! i
         in target r = 0
          \<and> shortfall r = 0
          \<and> fine r = 0
          \<and> status r \<in> {PaidInFull, NotYetDue}
          \<and> summary_total_fine out = 0"
proof -
  obtain s e where se: "get_debt_periods 2025 ! i = (s, e)" by (cases "get_debt_periods 2025 ! i")
  have z: "coerce_loan total_loan = 0" using assms(1,2) by simp
  have yt: "coerce_loan total_loan * (25 / 100) \<le> 0" using assms(1) by simp
  note sh = shortfall_row_of_nonpos[OF yt assms(3)]
  note fi = fine_row_of_nonpos[OF yt assms(3)]
  have tf: "summary_total_fine (calculate_yearly_summary debtor_name total_loan payments_df now) = 0"
    unfolding calc_eq Let_def summary_total_fine_def fst_conv snd_conv map_map comp_def fi
    by simp
  have st: "status (row_of debtor_name (coerce_loan total_loan * (25 / 100)) payments_df now (i, s, e))
      \<in> {PaidInFull, NotYetDue}"
    using sh[of debtor_name now "(i, s, e)"] unfolding row_of_fields by auto
  have tg: "target (row_of debtor_name (coerce_loan total_loan * (25 / 100)) payments_df now (i, s, e)) = 0"
    unfolding row_of_fields z by simp
  show ?thesis
    unfolding Let_def summary_rows_nth[OF assms(4)] se tf sh fi
    using st tg by simp
qed

theorem nonpositive_loan_zero_targets_fines_witness:
  "coerce_loan None \<le> 0
   \<and> 0 \<le> coerce_loan None
   \<and> (2::nat) < 4
   \<and> target (summary_rows (calculate_yearly_summary [66] None
        [\<lparr>payer = [66], paid_dt = Timestamp (Date 2025 5 1) 0, amount = 100, note_text = []\<rparr>]
        (Date 2030 1 1)) ! 2) = 0
   \<and> fine (summary_rows (calculate_yearly_summary [66] None
        [\<lparr>payer = [66], paid_dt = Timestamp (Date 2025 5 1) 0, amount = 100, note_text = []\<rparr>]
        (Date 2030 1 1)) ! 2) = 0
   \<and> summary_total_fine (calculate_yearly_summary [66] None
        [\<lparr>payer = [66], paid_dt = Timestamp (Date 2025 5 1) 0, amount = 100, note_text = []\<rparr>]
        (Date 2030 1 1)) = 0"
proof -
  have a: "coerce_loan None \<le> 0" by (simp add: coerce_loan_def)
  have a': "0 \<le> coerce_loan None" by (simp add: coerce_loan_def)
  have b: "\<forall>p \<in> set [\<lparr>payer = [66], paid_dt = Timestamp (Date 2025 5 1) 0, amount = 100,
      note_text = []\<rparr>]. 0 \<le> amount p" by simp
  have c: "(2::nat) < 4" by simp
  note t = nonpositive_loan_zero_targets_fines [OF a a' b c, of "[66]" "Date 2030 1 1",
      unfolded Let_def]
  show ?thesis
    by (intro conjI a a' c t[THEN conjunct1] t[THEN conjunct2, THEN conjunct2, THEN conjunct1]
        t[THEN conjunct2, THEN conjunct2, THEN conjunct2, THEN conjunct2])
qed

section \<open>Properties of the debt periods\<close>

text \<open>
  C5, as stated, fails on the span: the first period runs from 2025-04-05 to 2026-03-05,
  which is 334 days, while one year from 2025-04-05 is 365 days.
\<close>

theorem period_span_counterexample:
  "days_between (fst (get_debt_periods 2025 ! 0)) (snd (get_debt_periods 2025 ! 0)) = 334
   \<and> days_between (Date 2025 4 5) (Date 2026 4 5) = 365"
  by (simp add: get_debt_periods_eq ordinal_defs)

text \<open>
  C5, amended. Called with its default, \<open>get_debt_periods\<close> returns exactly four
  periods; period i starts on April 5 of the year 2025 + i and ends on March 5 of the
  year 2025 + i + 1, so each period spans eleven months (334 days, or 335 when it
  contains a February 29).
\<close>

theorem debt_periods_shape:
  "length (get_debt_periods 2025) = 4
   \<and> (\<forall>i<4. get_debt_periods 2025 ! i = (Date (2025 + i) 4 5, Date (2025 + i + 1) 3 5)
          \<and> days_between (fst (get_debt_periods 2025 ! i)) (snd (get_debt_periods 2025 ! i))
               \<in> {334, 335})"
proof -
  have c: "i = 0 \<or> i = 1 \<or> i = 2 \<or> i = 3" if "i < 4" for i :: nat using that by arith
  have p0: "get_debt_periods 2025 ! 0 = (Date (2025 + 0) 4 5, Date (2025 + 0 + 1) 3 5)"
       "get_debt_periods 2025 ! 1 = (Date (2025 + 1) 4 5, Date (2025 + 1 + 1) 3 5)"
       "get_debt_periods 2025 ! 2 = (Date (2025 + 2) 4 5, Date (2025 + 2 + 1) 3 5)"
       "get_debt_periods 2025 ! 3 = (Date (2025 + 3) 4 5, Date (2025 + 3 + 1) 3 5)"
    by (simp_all add: get_debt_periods_eq)
  have d0: "days_between (fst (get_debt_periods 2025 ! 0)) (snd (get_debt_periods 2025 ! 0)) = 334"
       "days_between (fst (get_debt_periods 2025 ! 1)) (snd (get_debt_periods 2025 ! 1)) = 334"
       "days_between (fst (get_debt_periods 2025 ! 2)) (snd (get_debt_periods 2025 ! 2)) = 335"
       "days_between (fst (get_debt_periods 2025 ! 3)) (snd (get_debt_periods 2025 ! 3)) = 334"
    by (simp_all add: get_debt_periods_eq ordinal_defs)
  have l: "length (get_debt_periods 2025) = 4" by (simp add: get_debt_periods_eq)
  have "get_debt_periods 2025 ! i = (Date (2025 + i) 4 5, Date (2025 + i + 1) 3 5)
          \<and> days_between (fst (get_debt_periods 2025 ! i)) (snd (get_debt_periods 2025 ! i))
               \<in> {334, 335}" if "i < 4" for i
    using c[OF that] p0 d0 by (elim disjE) (simp_all only: insert_iff simp_thms)
  with l show ?thesis by blast
qed

theorem debt_periods_shape_witness:
  "(2::nat) < 4
   \<and> get_debt_periods 2025 ! 2 = (Date 2027 4 5, Date 2028 3 5)
   \<and> length (get_debt_periods 2025) = 4"
proof -
  have a: "(2::nat) < 4" by simp
  from debt_periods_shape a
  have "get_debt_periods 2025 ! 2 = (Date (2025 + 2) 4 5, Date (2025 + 2 + 1) 3 5)" by blast
  then have b: "get_debt_periods 2025 ! 2 = (Date 2027 4 5, Date 2028 3 5)" by simp
  from debt_periods_shape have c: "length (get_debt_periods 2025) = 4" by blast
  show ?thesis by (intro conjI a b c)
qed

section \<open>Which payments are counted\<close>

lemma paid_in_period_insert:
  "paid_in_period n (xs @ p # ys) s e =
     paid_in_period n (xs @ ys) s e + (if in_mask n s e p then amount p else 0)"
  by (simp add: paid_in_period_def)

lemma row_of_cong:
  "paid_in_period n ps s e = paid_in_period n ps' s e \<Longrightarrow>
     row_of n yt ps now (i, s, e) = row_of n yt ps' now (i, s, e)"
  by (simp add: row_of_def Let_def)

lemma period_bounds:
  assumes "i < 4"
  shows "fst (get_debt_periods 2025 ! 0) \<le> fst (get_debt_periods 2025 ! i)"
    and "snd (get_debt_periods 2025 ! i) \<le> snd (get_debt_periods 2025 ! 3)"
proof -
  have c: "i = 0 \<or> i = 1 \<or> i = 2 \<or> i = 3" using assms by arith
  show "fst (get_debt_periods 2025 ! 0) \<le> fst (get_debt_periods 2025 ! i)"
    using c by (elim disjE) (simp_all add: get_debt_periods_eq less_eq_date_def date_key_def)
  show "snd (get_debt_periods 2025 ! i) \<le> snd (get_debt_periods 2025 ! 3)"
    using c by (elim disjE) (simp_all add: get_debt_periods_eq less_eq_date_def date_key_def)
qed

text \<open>
  C4. The paid-in-period sum of period i is the sum of the amounts of the payments whose
  payer equals the debtor's name and whose date lies between the period's start and end,
  both included: adding a payment anywhere in the payment list raises the sum by its
  amount exactly when it meets these conditions and leaves it unchanged otherwise. A
  payment dated before the first period's start or after the last period's end changes
  no period's sum.
\<close>

theorem payment_counted_in_period:
  assumes "i < 4"
  shows "paid (summary_rows (calculate_yearly_summary debtor_name total_loan payments_df now) ! i) =
           sum_list (map amount (filter
             (\<lambda>q. payer q = debtor_name
                  \<and> fst (get_debt_periods 2025 ! i) \<le> dt_date (paid_dt q)
                  \<and> dt_date (paid_dt q) \<le> snd (get_debt_periods 2025 ! i)) payments_df))
    \<and> paid (summary_rows (calculate_yearly_summary debtor_name total_loan (xs @ p # ys) now) ! i) =
        paid (summary_rows (calculate_yearly_summary debtor_name total_loan (xs @ ys) now) ! i)
        + (if payer p = debtor_name
              \<and> fst (get_debt_periods 2025 ! i) \<le> dt_date (paid_dt p)
              \<and> dt_date (paid_dt p) \<le> snd (get_debt_periods 2025 ! i)
           then amount p else 0)
    \<and> (dt_date (paid_dt p) < fst (get_debt_periods 2025 ! 0)
         \<or> snd (get_debt_periods 2025 ! 3) < dt_date (paid_dt p) \<longrightarrow>
        paid (summary_rows (calculate_yearly_summary debtor_name total_loan (xs @ p # ys) now) ! i) =
        paid (summary_rows (calculate_yearly_summary debtor_name total_loan (xs @ ys) now) ! i))"
proof -
  obtain s e where se: "get_debt_periods 2025 ! i = (s, e)" by (cases "get_debt_periods 2025 ! i")
  have b: "fst (get_debt_periods 2025 ! 0) \<le> s" "e \<le> snd (get_debt_periods 2025 ! 3)"
    using period_bounds[OF assms] by (simp_all add: se)
  have pd: "paid (summary_rows (calculate_yearly_summary debtor_name total_loan ps now) ! i) =
      paid_in_period debtor_name ps s e" for ps
    by (simp only: summary_rows_nth[OF assms] se row_of_fields)
  have out: "\<not> in_mask debtor_name s e p"
    if "dt_date (paid_dt p) < fst (get_debt_periods 2025 ! 0)
        \<or> snd (get_debt_periods 2025 ! 3) < dt_date (paid_dt p)"
    using that b by (auto simp: in_mask_def)
  have mk: "in_mask debtor_name s e =
      (\<lambda>q. payer q = debtor_name \<and> s \<le> dt_date (paid_dt q) \<and> dt_date (paid_dt q) \<le> e)"
    by (simp add: in_mask_def fun_eq_iff)
  have c1: "paid_in_period debtor_name payments_df s e =
      sum_list (map amount (filter
        (\<lambda>q. payer q = debtor_name \<and> s \<le> dt_date (paid_dt q) \<and> dt_date (paid_dt q) \<le> e)
        payments_df))"
    by (simp only: paid_in_period_def mk)
  have c2: "paid_in_period debtor_name (xs @ p # ys) s e =
      paid_in_period debtor_name (xs @ ys) s e
      + (if payer p = debtor_name \<and> s \<le> dt_date (paid_dt p) \<and> dt_date (paid_dt p) \<le> e
         then amount p else 0)"
    by (simp only: paid_in_period_insert in_mask_def)
  have c3: "paid_in_period debtor_name (xs @ p # ys) s e = paid_in_period debtor_name (xs @ ys) s e"
    if "dt_date (paid_dt p) < fst (get_debt_periods 2025 ! 0)
        \<or> snd (get_debt_periods 2025 ! 3) < dt_date (paid_dt p)"
    using out[OF that] by (simp add: paid_in_period_insert)
  show ?thesis
    unfolding pd se fst_conv snd_conv
    using c1 c2 c3 by blast
qed

lemma in_mask_disjoint:
  "\<not> (in_mask n (Date 2025 4 5) (Date 2026 3 5) q \<and> in_mask n (Date 2026 4 5) (Date 2027 3 5) q)"
  "\<not> (in_mask n (Date 2025 4 5) (Date 2026 3 5) q \<and> in_mask n (Date 2027 4 5) (Date 2028 3 5) q)"
  "\<not> (in_mask n (Date 2025 4 5) (Date 2026 3 5) q \<and> in_mask n (Date 2028 4 5) (Date 2029 3 5) q)"
  "\<not> (in_mask n (Date 2026 4 5) (Date 2027 3 5) q \<and> in_mask n (Date 2027 4 5) (Date 2028 3 5) q)"
  "\<not> (in_mask n (Date 2026 4 5) (Date 2027 3 5) q \<and> in_mask n (Date 2028 4 5) (Date 2029 3 5) q)"
  "\<not> (in_mask n (Date 2027 4 5) (Date 2028 3 5) q \<and> in_mask n (Date 2028 4 5) (Date 2029 3 5) q)"
  by (cases "dt_date (paid_dt q)"; simp add: in_mask_def less_eq_date_def date_key_def; arith)+

theorem payment_counted_in_period_witness:
  "(0::nat) < 4
   \<and> paid (summary_rows (calculate_yearly_summary [66] (Some 100000)
        [\<lparr>payer = [66], paid_dt = Timestamp (Date 2026 3 5) 86399, amount = 500, note_text = []\<rparr>]
        (Date 2026 3 6)) ! 0) = 500"
proof -
  have a: "(0::nat) < 4" by simp
  note t = payment_counted_in_period [OF a, of "[66]" "Some 100000" "[]" "Date 2026 3 6" "[]"
      "\<lparr>payer = [66], paid_dt = Timestamp (Date 2026 3 5) 86399, amount = 500, note_text = []\<rparr>"
      "[]"]
  from t have "paid (summary_rows (calculate_yearly_summary [66] (Some 100000)
        [\<lparr>payer = [66], paid_dt = Timestamp (Date 2026 3 5) 86399, amount = 500, note_text = []\<rparr>]
        (Date 2026 3 6)) ! 0) = 500"
    by (simp add: get_debt_periods_eq less_eq_date_def date_key_def)
  with a show ?thesis by (intro conjI)
qed

lemma paid_in_period_Cons:
  "paid_in_period n (q # ps) s e = (if in_mask n s e q then amount q else 0) + paid_in_period n ps s e"
  by (simp add: paid_in_period_def)

lemma in_some_period_eq:
  "(payer q = n \<and> list_ex (\<lambda>(s, e). s \<le> dt_date (paid_dt q) \<and> dt_date (paid_dt q) \<le> e)
       (get_debt_periods 2025)) =
   (in_mask n (Date 2025 4 5) (Date 2026 3 5) q \<or> in_mask n (Date 2026 4 5) (Date 2027 3 5) q
    \<or> in_mask n (Date 2027 4 5) (Date 2028 3 5) q \<or> in_mask n (Date 2028 4 5) (Date 2029 3 5) q)"
  by (auto simp: get_debt_periods_eq in_mask_def)

lemma four_periods_sum:
  "paid_in_period n ps (Date 2025 4 5) (Date 2026 3 5)
   + (paid_in_period n ps (Date 2026 4 5) (Date 2027 3 5)
   + (paid_in_period n ps (Date 2027 4 5) (Date 2028 3 5)
   + paid_in_period n ps (Date 2028 4 5) (Date 2029 3 5))) =
   sum_list (map amount (filter
     (\<lambda>q. payer q = n \<and> list_ex (\<lambda>(s, e). s \<le> dt_date (paid_dt q) \<and> dt_date (paid_dt q) \<le> e)
       (get_debt_periods 2025)) ps))"
proof (induction ps)
  case Nil
  then show ?case by (simp add: paid_in_period_Nil)
next
  case (Cons q ps)
  show ?case
    unfolding paid_in_period_Cons filter.simps in_some_period_eq
    using Cons.IH[unfolded in_some_period_eq] in_mask_disjoint[of n q]
    by (cases "in_mask n (Date 2025 4 5) (Date 2026 3 5) q";
        cases "in_mask n (Date 2026 4 5) (Date 2027 3 5) q";
        cases "in_mask n (Date 2027 4 5) (Date 2028 3 5) q";
        cases "in_mask n (Date 2028 4 5) (Date 2029 3 5) q"; simp)
qed

text \<open>
  C10. The total paid is the sum of the debtor's payments that fall inside one of the four
  periods. A payment dated outside every period changes nothing in the result: it is in no
  period's row and it does not reduce the remaining overall debt.
\<close>

theorem total_paid_only_in_periods:
  "summary_total_paid (calculate_yearly_summary debtor_name total_loan payments_df now) =
     sum_list (map amount (filter
       (\<lambda>q. payer q = debtor_name
            \<and> list_ex (\<lambda>(s, e). s \<le> dt_date (paid_dt q) \<and> dt_date (paid_dt q) \<le> e)
                (get_debt_periods 2025)) payments_df))
   \<and> (\<not> list_ex (\<lambda>(s, e). s \<le> dt_date (paid_dt p) \<and> dt_date (paid_dt p) \<le> e)
          (get_debt_periods 2025) \<longrightarrow>
        calculate_yearly_summary debtor_name total_loan (xs @ p # ys) now =
        calculate_yearly_summary debtor_name total_loan (xs @ ys) now)"
proof -
  have tot: "summary_total_paid (calculate_yearly_summary debtor_name total_loan payments_df now) =
     sum_list (map amount (filter
       (\<lambda>q. payer q = debtor_name
            \<and> list_ex (\<lambda>(s, e). s \<le> dt_date (paid_dt q) \<and> dt_date (paid_dt q) \<le> e)
                (get_debt_periods 2025)) payments_df))"
    unfolding four_periods_sum[symmetric]
    by (simp add: calc_eq Let_def summary_total_paid_def upt_0_4 get_debt_periods_eq row_of_fields)
  have r: "row_of debtor_name yt (xs @ p # ys) now (i, s, e) = row_of debtor_name yt (xs @ ys) now (i, s, e)"
    if "\<not> in_mask debtor_name s e p" for i s e yt
    by (rule row_of_cong) (simp add: paid_in_period_insert that)
  have same: "calculate_yearly_summary debtor_name total_loan (xs @ p # ys) now =
        calculate_yearly_summary debtor_name total_loan (xs @ ys) now"
    if out: "\<not> list_ex (\<lambda>(s, e). s \<le> dt_date (paid_dt p) \<and> dt_date (paid_dt p) \<le> e)
          (get_debt_periods 2025)"
  proof -
    have nm: "\<not> in_mask debtor_name (Date 2025 4 5) (Date 2026 3 5) p"
        "\<not> in_mask debtor_name (Date 2026 4 5) (Date 2027 3 5) p"
        "\<not> in_mask debtor_name (Date 2027 4 5) (Date 2028 3 5) p"
        "\<not> in_mask debtor_name (Date 2028 4 5) (Date 2029 3 5) p"
      using out by (auto simp: in_mask_def get_debt_periods_eq)
    show ?thesis
      unfolding calc_eq Let_def upt_0_4 get_debt_periods_eq
      by (simp add: r nm)
  qed
  from tot same show ?thesis by blast
qed

theorem total_paid_only_in_periods_witness:
  "\<not> list_ex (\<lambda>(s, e). s \<le> Date 2026 3 20 \<and> Date 2026 3 20 \<le> e) (get_debt_periods 2025)
   \<and> summary_remaining (calculate_yearly_summary [66] (Some 100000)
        [\<lparr>payer = [66], paid_dt = Timestamp (Date 2026 3 20) 0, amount = 500, note_text = []\<rparr>]
        (Date 2026 3 6)) = 103750
   \<and> summary_total_paid (calculate_yearly_summary [66] (Some 100000)
        [\<lparr>payer = [66], paid_dt = Timestamp (Date 2026 3 20) 0, amount = 500, note_text = []\<rparr>]
        (Date 2026 3 6)) = 0"
proof -
  let ?p = "\<lparr>payer = [66], paid_dt = Timestamp (Date 2026 3 20) 0, amount = 500, note_text = []\<rparr>"
  have o: "\<not> list_ex (\<lambda>(s, e). s \<le> Date 2026 3 20 \<and> Date 2026 3 20 \<le> e) (get_debt_periods 2025)"
    by (simp add: get_debt_periods_eq less_eq_date_def date_key_def)
  have o': "\<not> list_ex (\<lambda>(s, e). s \<le> dt_date (paid_dt ?p) \<and> dt_date (paid_dt ?p) \<le> e)
      (get_debt_periods 2025)"
    using o by simp
  note t = total_paid_only_in_periods [of "[66]" "Some 100000" "[]" "Date 2026 3 6" ?p "[]" "[]"]
  from t o' have eq: "calculate_yearly_summary [66] (Some 100000) ([] @ ?p # []) (Date 2026 3 6) =
      calculate_yearly_summary [66] (Some 100000) ([] @ []) (Date 2026 3 6)" by blast
  from t have z: "summary_total_paid (calculate_yearly_summary [66] (Some 100000) [] (Date 2026 3 6)) = 0"
    by simp
  have rm: "summary_remaining (calculate_yearly_summary [66] (Some 100000) [] (Date 2026 3 6)) = 103750"
    by code_simp
  from eq have eq': "calculate_yearly_summary [66] (Some 100000) [?p] (Date 2026 3 6) =
      calculate_yearly_summary [66] (Some 100000) [] (Date 2026 3 6)" by simp
  show ?thesis
    unfolding eq' by (intro conjI o z rm)
qed

section \<open>Properties of the row scan\<close>

lemma scan_rows_eq:
  "scan_rows M i rs =
     (if \<exists>r \<in> set rs. M r then int (i + length (takeWhile (\<lambda>r. \<not> M r) rs) + 2) else - 1)"
  by (induction rs arbitrary: i) auto

lemma first_match_props:
  assumes "\<exists>r \<in> set rs. M r"
  defines "n \<equiv> length (takeWhile (\<lambda>r. \<not> M r) rs)"
  shows "n < length rs" and "M (rs ! n)" and "\<forall>j < n. \<not> M (rs ! j)"
proof -
  have ne: "takeWhile (\<lambda>r. \<not> M r) rs \<noteq> rs"
    using assms(1) by (simp add: takeWhile_eq_all_conv)
  have le: "n \<le> length rs" unfolding n_def by (rule length_takeWhile_le)
  have "n \<noteq> length rs"
  proof
    assume "n = length rs"
    then have "takeWhile (\<lambda>r. \<not> M r) rs = rs"
      using takeWhile_eq_take[of "\<lambda>r. \<not> M r" rs] by (simp add: n_def)
    with ne show False by simp
  qed
  with le show lt: "n < length rs" by simp
  from nth_length_takeWhile[of "\<lambda>r. \<not> M r" rs] lt show "M (rs ! n)"
    by (simp add: n_def)
  show "\<forall>j < n. \<not> M (rs ! j)"
  proof (intro allI impI)
    fix j assume j: "j < n"
    then have "takeWhile (\<lambda>r. \<not> M r) rs ! j \<in> set (takeWhile (\<lambda>r. \<not> M r) rs)"
      by (simp add: n_def)
    then have "\<not> M (takeWhile (\<lambda>r. \<not> M r) rs ! j)" by (auto dest: set_takeWhileD)
    then show "\<not> M (rs ! j)" using j by (simp add: takeWhile_nth n_def)
  qed
qed

lemma locate_eq:
  assumes "list_index (map normalize_gsheet_col_name header_row) col_payer = Some payer_idx"
      and "list_index (map normalize_gsheet_col_name header_row) col_date = Some date_idx"
      and "list_index (map normalize_gsheet_col_name header_row) col_amount = Some amount_idx"
      and "list_index (map normalize_gsheet_col_name header_row) col_note = Some note_idx"
  shows "locate_payment_row to_numeric (header_row # data_rows) row =
     (let M = row_matches to_numeric payer_idx date_idx amount_idx note_idx
                (strftime_ymd (dt_date (paid_dt row))) row
      in if \<exists>r \<in> set data_rows. M r
         then EditRow (length (takeWhile (\<lambda>r. \<not> M r) data_rows) + 2)
         else RecordNotFound)"
proof -
  have h: "nat (2 + int n) = Suc (Suc n)" for n by arith
  show ?thesis
    by (simp add: locate_payment_row_def row_index_in_gsheet_def Let_def assms scan_rows_eq h)
qed

lemma ws_update_row_other:
  "j \<noteq> k - 1 \<Longrightarrow> j < length ws \<Longrightarrow> ws_update_row ws k vals ! j = ws ! j"
  by (simp add: ws_update_row_def nth_append)

lemmas normalize_defs =
  normalize_gsheet_col_name_def py_strip_def py_isspace_def
  col_payer_def col_date_def col_amount_def col_note_def

lemma sample_header_index:
  "list_index (map normalize_gsheet_col_name [col_payer, col_date, col_amount, col_note]) col_payer = Some 0"
  "list_index (map normalize_gsheet_col_name [col_payer, col_date, col_amount, col_note]) col_date = Some 1"
  "list_index (map normalize_gsheet_col_name [col_payer, col_date, col_amount, col_note]) col_amount = Some 2"
  "list_index (map normalize_gsheet_col_name [col_payer, col_date, col_amount, col_note]) col_note = Some 3"
  by (simp_all add: normalize_defs)

lemmas locate_defs =
  locate_payment_row_def row_index_in_gsheet_def sample_header_index
  row_matches_def normalize_defs pad_row_def strftime_ymd_def zero_pad_def Let_def

text \<open>
  C7, as stated, fails in both directions. A sheet row equal cell for cell to the in-memory
  row is not found when the payer starts with a space: the scan normalises the cell and
  compares it with the in-memory payer as it is. And a row that differs from the in-memory
  row is selected: with the payer cells "Bob " and "Bob" in this order, the scan for the
  in-memory payer "Bob" stops at the first.
\<close>

theorem exact_match_counterexample:
  "locate_payment_row (\<lambda>s. if s = [49, 48, 48] then Some 100 else if s = [50, 48, 48] then Some 200 else None)
     [[col_payer, col_date, col_amount, col_note], [[32, 66, 111, 98], [50, 48, 50, 53, 45, 48, 53, 45, 48, 49], [49, 48, 48], []]]
     \<lparr>payer = [32, 66, 111, 98], paid_dt = Timestamp (Date 2025 5 1) 0, amount = 100, note_text = []\<rparr>
     = RecordNotFound
   \<and> locate_payment_row (\<lambda>s. if s = [49, 48, 48] then Some 100 else if s = [50, 48, 48] then Some 200 else None)
     [[col_payer, col_date, col_amount, col_note], [[66, 111, 98, 32], [50, 48, 50, 53, 45, 48, 53, 45, 48, 49], [49, 48, 48], []], [[66, 111, 98], [50, 48, 50, 53, 45, 48, 53, 45, 48, 49], [49, 48, 48], []]]
     \<lparr>payer = [66, 111, 98], paid_dt = Timestamp (Date 2025 5 1) 0, amount = 100, note_text = []\<rparr>
     = EditRow 2
   \<and> [66, 111, 98, 32] \<noteq> [66, 111, 98]"
  by (simp add: locate_defs)

text \<open>
  C7, amended. Let the payer and the note of the in-memory row be unchanged by the
  normalisation, and the four columns be present in the header. On an empty sheet the
  outcome is record-not-found. Otherwise the scan selects the first sheet row, from the
  top, whose normalised payer cell equals the in-memory payer, whose normalised date cell
  equals the in-memory date written as YYYY-MM-[50, 48, 50, 53, 45, 48, 53, 45, 48, 49], whose amount cell reads as the number
  of the in-memory amount, and whose normalised note cell equals the in-memory note; the
  outcome is record-not-found exactly when no row does. A row whose amount cell reads as
  another number is never the selected row, and the update, which writes at the stored
  row number into the sheet as it then is, leaves the row at that position as it was.
\<close>

theorem locate_first_matching_row:
  assumes "list_index (map normalize_gsheet_col_name header_row) col_payer = Some payer_idx"
      and "list_index (map normalize_gsheet_col_name header_row) col_date = Some date_idx"
      and "list_index (map normalize_gsheet_col_name header_row) col_amount = Some amount_idx"
      and "list_index (map normalize_gsheet_col_name header_row) col_note = Some note_idx"
      and "normalize_gsheet_col_name (payer row) = payer row"
      and "normalize_gsheet_col_name (note_text row) = note_text row"
  shows "let cell = (\<lambda>r c. normalize_gsheet_col_name
                      (pad_row (max payer_idx (max date_idx (max amount_idx note_idx)) + 1) r ! c));
             M = (\<lambda>r. cell r payer_idx = payer row
                      \<and> cell r date_idx = strftime_ymd (dt_date (paid_dt row))
                      \<and> to_numeric (cell r amount_idx) = Some (amount row)
                      \<and> cell r note_idx = note_text row);
             ws = header_row # data_rows;
             found = locate_payment_row to_numeric ws row
         in locate_payment_row to_numeric [] row = RecordNotFound
          \<and> (found = RecordNotFound \<longleftrightarrow> (\<forall>r \<in> set data_rows. \<not> M r))
          \<and> found \<noteq> Stopped
          \<and> (\<forall>k. found = EditRow k \<longrightarrow>
                2 \<le> k \<and> k - 2 < length data_rows \<and> M (data_rows ! (k - 2))
                \<and> (\<forall>j < k - 2. \<not> M (data_rows ! j))
                \<and> ws ! (k - 1) = data_rows ! (k - 2))
          \<and> (\<forall>j < length data_rows.
                to_numeric (cell (data_rows ! j) amount_idx) \<noteq> Some (amount row) \<longrightarrow>
                found \<noteq> EditRow (j + 2)
                \<and> (\<forall>k later_ws. found = EditRow k \<and> j + 1 < length later_ws \<longrightarrow>
                      submit_edit show_amount later_ws k new_name new_date new_amount new_note
                        ! (j + 1) = later_ws ! (j + 1)))"
proof -
  define M where "M = row_matches to_numeric payer_idx date_idx amount_idx note_idx
                   (strftime_ymd (dt_date (paid_dt row))) row"
  define n where "n = length (takeWhile (\<lambda>r. \<not> M r) data_rows)"
  define found where "found = locate_payment_row to_numeric (header_row # data_rows) row"
  have Meq: "(\<lambda>r. normalize_gsheet_col_name
                 (pad_row (max payer_idx (max date_idx (max amount_idx note_idx)) + 1) r ! payer_idx)
                 = payer row
             \<and> normalize_gsheet_col_name
                 (pad_row (max payer_idx (max date_idx (max amount_idx note_idx)) + 1) r ! date_idx)
                 = strftime_ymd (dt_date (paid_dt row))
             \<and> to_numeric (normalize_gsheet_col_name
                 (pad_row (max payer_idx (max date_idx (max amount_idx note_idx)) + 1) r ! amount_idx))
                 = Some (amount row)
             \<and> normalize_gsheet_col_name
                 (pad_row (max payer_idx (max date_idx (max amount_idx note_idx)) + 1) r ! note_idx)
                 = note_text row) = M"
    unfolding M_def by (simp add: row_matches_def Let_def fun_eq_iff)
  have f: "found = (if \<exists>r \<in> set data_rows. M r then EditRow (n + 2) else RecordNotFound)"
    unfolding found_def locate_eq[OF assms(1-4)] Let_def M_def n_def ..
  have p: "n < length data_rows \<and> M (data_rows ! n) \<and> (\<forall>j < n. \<not> M (data_rows ! j))"
    if "\<exists>r \<in> set data_rows. M r"
    using first_match_props[OF that] unfolding n_def by blast
  have am: "to_numeric (normalize_gsheet_col_name
                  (pad_row (max payer_idx (max date_idx (max amount_idx note_idx)) + 1)
                     r ! amount_idx)) = Some (amount row)" if "M r" for r
    using that unfolding M_def row_matches_def Let_def by blast
  have c0: "locate_payment_row to_numeric [] row = RecordNotFound"
    by (simp add: locate_payment_row_def row_index_in_gsheet_def)
  have c1: "found = RecordNotFound \<longleftrightarrow> (\<forall>r \<in> set data_rows. \<not> M r)"
    unfolding f by auto
  have c2: "found \<noteq> Stopped" unfolding f by auto
  have c3: "2 \<le> k \<and> k - 2 < length data_rows \<and> M (data_rows ! (k - 2))
                \<and> (\<forall>j < k - 2. \<not> M (data_rows ! j))
                \<and> (header_row # data_rows) ! (k - 1) = data_rows ! (k - 2)"
    if "found = EditRow k" for k
  proof -
    from that have ex: "\<exists>r \<in> set data_rows. M r" and k: "k = n + 2"
      unfolding f by (auto split: if_splits)
    from p[OF ex] show ?thesis unfolding k by simp
  qed
  have c4: "found \<noteq> EditRow (j + 2)
        \<and> (\<forall>k later_ws. found = EditRow k \<and> j + 1 < length later_ws \<longrightarrow>
              submit_edit show_amount later_ws k new_name new_date new_amount new_note
                 ! (j + 1) = later_ws ! (j + 1))"
    if j: "j < length data_rows"
      and na: "to_numeric (normalize_gsheet_col_name
                  (pad_row (max payer_idx (max date_idx (max amount_idx note_idx)) + 1)
                     (data_rows ! j) ! amount_idx)) \<noteq> Some (amount row)" for j
  proof -
    have nm: "\<not> M (data_rows ! j)" using am na by blast
    have a: "found \<noteq> EditRow (j + 2)"
    proof
      assume "found = EditRow (j + 2)"
      from c3[OF this] nm show False by simp
    qed
    have b: "submit_edit show_amount later_ws k new_name new_date new_amount new_note
                 ! (j + 1) = later_ws ! (j + 1)"
      if "found = EditRow k" "j + 1 < length later_ws" for k later_ws
    proof -
      from that(1) a have "k \<noteq> j + 2" by auto
      moreover from c3[OF that(1)] have "2 \<le> k" by simp
      ultimately have "j + 1 \<noteq> k - 1" by arith
      then show ?thesis
        unfolding submit_edit_def using that(2) by (intro ws_update_row_other) simp_all
    qed
    from a b show ?thesis by blast
  qed
  show ?thesis
    using c0 c1 c2 c3 c4
    unfolding Let_def found_def[symmetric] Meq[symmetric]
    by blast
qed

theorem locate_first_matching_row_witness:
  "list_index (map normalize_gsheet_col_name [col_payer, col_date, col_amount, col_note]) col_amount = Some 2
   \<and> normalize_gsheet_col_name [66, 111, 98] = [66, 111, 98]
   \<and> locate_payment_row (\<lambda>s. if s = [49, 48, 48] then Some 100 else if s = [50, 48, 48] then Some 200 else None)
        [[col_payer, col_date, col_amount, col_note], [[66, 111, 98], [50, 48, 50, 53, 45, 48, 53, 45, 48, 49], [49, 48, 48], []], [[66, 111, 98], [50, 48, 50, 53, 45, 48, 53, 45, 48, 49], [50, 48, 48], []]]
        \<lparr>payer = [66, 111, 98], paid_dt = Timestamp (Date 2025 5 1) 0, amount = 200, note_text = []\<rparr> = EditRow 3
   \<and> submit_edit (\<lambda>a. [50, 53, 48])
        [[col_payer, col_date, col_amount, col_note], [[66, 111, 98], [50, 48, 50, 53, 45, 48, 53, 45, 48, 49], [49, 48, 48], []], [[66, 111, 98], [50, 48, 50, 53, 45, 48, 53, 45, 48, 49], [50, 48, 48], []]]
        3 [66, 111, 98] (Date 2025 5 1) 250 [] ! 1 = [[66, 111, 98], [50, 48, 50, 53, 45, 48, 53, 45, 48, 49], [49, 48, 48], []]"
proof -
  let ?tn = "(\<lambda>s. if s = [49, 48, 48] then Some 100 else if s = [50, 48, 48] then Some 200 else None)"
  let ?rows = "[[[66, 111, 98], [50, 48, 50, 53, 45, 48, 53, 45, 48, 49], [49, 48, 48], []], [[66, 111, 98], [50, 48, 50, 53, 45, 48, 53, 45, 48, 49], [50, 48, 48], []]]"
  let ?row = "\<lparr>payer = [66, 111, 98], paid_dt = Timestamp (Date 2025 5 1) 0, amount = 200, note_text = []\<rparr>"
  have n1: "normalize_gsheet_col_name (payer ?row) = payer ?row"
    by (simp add: normalize_defs)
  have n2: "normalize_gsheet_col_name (note_text ?row) = note_text ?row"
    by (simp add: normalize_defs)
  have nb: "normalize_gsheet_col_name [66, 111, 98] = [66, 111, 98]" by (simp add: normalize_defs)
  have na: "?tn (normalize_gsheet_col_name (pad_row (max 0 (max 1 (max 2 3)) + 1) (?rows ! 0) ! 2))
      \<noteq> Some (amount ?row)"
    by (simp add: normalize_defs pad_row_def)
  have j: "(0::nat) < length ?rows" by simp
  note t = locate_first_matching_row [where to_numeric = ?tn and row = ?row and data_rows = ?rows
      and show_amount = "(\<lambda>a. [50, 53, 48])" and new_name = "[66, 111, 98]" and new_date = "Date 2025 5 1"
      and new_amount = 250 and new_note = "[]",
      OF sample_header_index n1 n2, unfolded Let_def]
  have f: "locate_payment_row ?tn ([col_payer, col_date, col_amount, col_note] # ?rows) ?row = EditRow 3"
    by (simp add: locate_defs)
  have l: "0 + 1 < length ([col_payer, col_date, col_amount, col_note] # ?rows)" by simp
  note c4 = t [THEN conjunct2, THEN conjunct2, THEN conjunct2, THEN conjunct2, rule_format, OF j na]
  note u = c4 [THEN conjunct2, rule_format, OF conjI, OF f l]
  from u have u': "submit_edit (\<lambda>a. [50, 53, 48]) ([col_payer, col_date, col_amount, col_note] # ?rows) 3 [66, 111, 98] (Date 2025 5 1) 250 [] ! 1 = [[66, 111, 98], [50, 48, 50, 53, 45, 48, 53, 45, 48, 49], [49, 48, 48], []]"
    by simp
  show ?thesis by (intro conjI sample_header_index(3) nb f u')
qed

section \<open>Deleting a debtor\<close>

text \<open>
  C8 on a debtor whose name starts with a space. The sheet holds one payment whose payer
  cell is that name, character for character. Deleting the debtor leaves the sheet as it
  was: the handler compares the normalised cell with the name as it is. Deleting the
  debtor with the stripped name removes the row, although its payer cell differs from
  that name.
\<close>

theorem delete_debtor_keeps_payment_of_spaced_name:
  "delete_debtor_payments [32, 66, 111, 98]
     [[col_payer, col_date, col_amount, col_note], [[32, 66, 111, 98], [50, 48, 50, 53, 45, 48, 53, 45, 48, 49], [49, 48, 48], []]]
   = [[col_payer, col_date, col_amount, col_note], [[32, 66, 111, 98], [50, 48, 50, 53, 45, 48, 53, 45, 48, 49], [49, 48, 48], []]]
   \<and> [[col_payer, col_date, col_amount, col_note], [[32, 66, 111, 98], [50, 48, 50, 53, 45, 48, 53, 45, 48, 49], [49, 48, 48], []]] ! 1 ! 0 = [32, 66, 111, 98]
   \<and> delete_debtor_payments [66, 111, 98]
     [[col_payer, col_date, col_amount, col_note], [[32, 66, 111, 98], [50, 48, 50, 53, 45, 48, 53, 45, 48, 49], [49, 48, 48], []]]
   = [[col_payer, col_date, col_amount, col_note]]"
  by (simp add: delete_debtor_payments_def keep_payment_row_def normalize_defs Let_def)

end
